theory Spec2Isabelle
  imports Main
begin

text \<open>
  A shallow embedding of \<^verbatim>\<open>src/resolver.js\<close>, the Slack adapter of the repository: the
  configuration store \<^verbatim>\<open>BrowserConfig\<close> (\<^verbatim>\<open>init\<close>, \<^verbatim>\<open>get\<close>), the lookups \<^verbatim>\<open>getApiKey\<close> and
  \<^verbatim>\<open>getChannel\<close>, \<^verbatim>\<open>StandardHeaders\<close>, \<^verbatim>\<open>handleAxiosRequest\<close>, \<^verbatim>\<open>waitForReply\<close>, \<^verbatim>\<open>send\<close> and
  \<^verbatim>\<open>receive\<close>. An asynchronous function is modelled by its result once its promise settles
  (\<open>Inl\<close> for a rejection), and the world is taken not to change while a function awaits.
  \<^verbatim>\<open>BrowserConfig.set\<close> and \<^verbatim>\<open>loadIntegrationManager\<close> are not embedded: the first is not used
  by the properties below, and the outcome of the second is the field \<open>al_integmanager\<close> of
  the world.
\<close>

section \<open>JavaScript values\<close>

text \<open>
  The values that \<^verbatim>\<open>resolver.js\<close> stores, sends and receives are JSON-shaped: configuration
  values, message texts, response bodies. Numbers are restricted to the integers that a
  double holds exactly (magnitude below \<open>2 ^ 53\<close>); beyond them the arithmetic of the
  language rounds and its printing changes to exponent notation, which \<open>ToString\<close> and
  \<open>reply_of\<close> below do not follow. Strings are sequences of code units, and an object is the
  list of its own enumerable properties in enumeration order (a JavaScript object has each
  key once).
\<close>

datatype jsval =
    JUndefined
  | JNull
  | JBool bool
  | JNum int
  | JStr string
  | JArr "jsval list"
  | JObj "(string \<times> jsval) list"

text \<open>
  What an operation can end with instead of a value. \<open>TypeError\<close> and \<open>SyntaxError\<close> are the
  exceptions of the language. \<open>Unmodelled\<close> is not an exception: it marks an input on which the
  source's result depends on the string-to-number coercion of the language, which is not
  embedded here.
\<close>

datatype js_exn = TypeError | SyntaxError | Unmodelled

text \<open>ToBoolean, as used by \<^verbatim>\<open>if (x)\<close>, \<^verbatim>\<open>!x\<close>, \<^verbatim>\<open>a && b\<close>.\<close>

fun truthy :: "jsval \<Rightarrow> bool" where
  "truthy JUndefined = False"
| "truthy JNull = False"
| "truthy (JBool b) = b"
| "truthy (JNum n) = (n \<noteq> 0)"
| "truthy (JStr s) = (s \<noteq> [])"
| "truthy (JArr xs) = True"
| "truthy (JObj ps) = True"

fun typeof :: "jsval \<Rightarrow> string" where
  "typeof JUndefined = ''undefined''"
| "typeof JNull = ''object''"
| "typeof (JBool b) = ''boolean''"
| "typeof (JNum n) = ''number''"
| "typeof (JStr s) = ''string''"
| "typeof (JArr xs) = ''object''"
| "typeof (JObj ps) = ''object''"

definition digit_char :: "nat \<Rightarrow> char" where
  "digit_char d = ''0123456789'' ! d"

fun string_of_nat :: "nat \<Rightarrow> string" where
  "string_of_nat n =
     (if n < 10 then [digit_char n]
      else string_of_nat (n div 10) @ [digit_char (n mod 10)])"

declare string_of_nat.simps [simp del]

definition string_of_int :: "int \<Rightarrow> string" where
  "string_of_int i = (if i < 0 then CHR ''-'' # string_of_nat (nat (- i)) else string_of_nat (nat i))"

fun join_comma :: "string list \<Rightarrow> string" where
  "join_comma [] = []"
| "join_comma [s] = s"
| "join_comma (s # t # ss) = s @ '','' @ join_comma (t # ss)"

text \<open>
  ToString, as applied by a template literal \<^verbatim>\<open>`${x}`\<close>. An array is joined with commas,
  \<^verbatim>\<open>null\<close> and \<^verbatim>\<open>undefined\<close> elements giving the empty string.
\<close>

fun ToString :: "jsval \<Rightarrow> string" where
  "ToString JUndefined = ''undefined''"
| "ToString JNull = ''null''"
| "ToString (JBool b) = (if b then ''true'' else ''false'')"
| "ToString (JNum n) = string_of_int n"
| "ToString (JStr s) = s"
| "ToString (JArr xs) =
     join_comma (map (\<lambda>x. if x = JUndefined \<or> x = JNull then [] else ToString x) xs)"
| "ToString (JObj ps) = ''[object Object]''"

text \<open>
  ToNumber, as applied by \<^verbatim>\<open>x >= 2\<close> and \<^verbatim>\<open>x - 1\<close>. \<open>None\<close> where the language parses a
  string (a string, or an array through its ToString).
\<close>

datatype js_number = Finite int | NaN

fun ToNumber :: "jsval \<Rightarrow> js_number option" where
  "ToNumber JUndefined = Some NaN"
| "ToNumber JNull = Some (Finite 0)"
| "ToNumber (JBool b) = Some (Finite (if b then 1 else 0))"
| "ToNumber (JNum n) = Some (Finite n)"
| "ToNumber (JStr s) = None"
| "ToNumber (JArr xs) = None"
| "ToNumber (JObj ps) = Some NaN"

text \<open>
  Property read \<^verbatim>\<open>v.k\<close> / \<^verbatim>\<open>v['k']\<close> for a data property: it throws on \<^verbatim>\<open>undefined\<close> and
  \<^verbatim>\<open>null\<close>, and gives \<^verbatim>\<open>undefined\<close> for a property that is not there. Arrays and strings have
  \<^verbatim>\<open>length\<close> and their indices. The names the module reads (\<^verbatim>\<open>error\<close>, \<^verbatim>\<open>ts\<close>, \<^verbatim>\<open>messages\<close>,
  \<^verbatim>\<open>text\<close>, \<^verbatim>\<open>length\<close>) are not inherited from a prototype.
\<close>

definition index_of_key :: "string \<Rightarrow> nat \<Rightarrow> nat option" where
  "index_of_key k n = find (\<lambda>i. string_of_nat i = k) [0..<n]"

fun get_prop :: "jsval \<Rightarrow> string \<Rightarrow> js_exn + jsval" where
  "get_prop JUndefined k = Inl TypeError"
| "get_prop JNull k = Inl TypeError"
| "get_prop (JBool b) k = Inr JUndefined"
| "get_prop (JNum n) k = Inr JUndefined"
| "get_prop (JStr s) k =
     (if k = ''length'' then Inr (JNum (int (length s)))
      else case index_of_key k (length s) of
             Some i \<Rightarrow> Inr (JStr [s ! i])
           | None \<Rightarrow> Inr JUndefined)"
| "get_prop (JArr xs) k =
     (if k = ''length'' then Inr (JNum (int (length xs)))
      else case index_of_key k (length xs) of
             Some i \<Rightarrow> Inr (xs ! i)
           | None \<Rightarrow> Inr JUndefined)"
| "get_prop (JObj ps) k =
     (case map_of ps k of Some v \<Rightarrow> Inr v | None \<Rightarrow> Inr JUndefined)"

text \<open>Property read \<^verbatim>\<open>v[i]\<close> with an integer key.\<close>

fun get_index :: "jsval \<Rightarrow> int \<Rightarrow> js_exn + jsval" where
  "get_index JUndefined i = Inl TypeError"
| "get_index JNull i = Inl TypeError"
| "get_index (JBool b) i = Inr JUndefined"
| "get_index (JNum n) i = Inr JUndefined"
| "get_index (JStr s) i =
     (if 0 \<le> i \<and> nat i < length s then Inr (JStr [s ! nat i]) else Inr JUndefined)"
| "get_index (JArr xs) i =
     (if 0 \<le> i \<and> nat i < length xs then Inr (xs ! nat i) else Inr JUndefined)"
| "get_index (JObj ps) i =
     (case map_of ps (string_of_int i) of Some v \<Rightarrow> Inr v | None \<Rightarrow> Inr JUndefined)"

text \<open>\<^verbatim>\<open>Object.entries\<close>: it throws on \<^verbatim>\<open>undefined\<close> and \<^verbatim>\<open>null\<close>.\<close>

fun Object_entries :: "jsval \<Rightarrow> js_exn + (string \<times> jsval) list" where
  "Object_entries JUndefined = Inl TypeError"
| "Object_entries JNull = Inl TypeError"
| "Object_entries (JBool b) = Inr []"
| "Object_entries (JNum n) = Inr []"
| "Object_entries (JStr s) = Inr (zip (map string_of_nat [0..<length s]) (map (\<lambda>c. JStr [c]) s))"
| "Object_entries (JArr xs) = Inr (zip (map string_of_nat [0..<length xs]) xs)"
| "Object_entries (JObj ps) = Inr ps"

section \<open>The host: HTTP client, storage, console\<close>

text \<open>The request configuration the module hands to axios; \<open>http_method\<close> is its \<^verbatim>\<open>method\<close>
  property, and \<open>data\<close> is \<open>None\<close> when the property is left out.\<close>

record axios_config =
  http_method :: string
  headers :: "(string \<times> string) list"
  data :: "jsval option"

text \<open>What axios gives back: a response, or an error that carries the response (if one
  arrived), whether a request was made, and a message.\<close>

record axios_response =
  status :: nat
  statusText :: string
  response_data :: jsval

record axios_error =
  error_response :: "axios_response option"
  error_request :: bool
  error_message :: jsval

datatype axios_outcome = Resolved axios_response | Rejected axios_error

text \<open>The integration manager of agentlang, an opaque provider of settings. The object may
  lack the \<^verbatim>\<open>getIntegrationConfig\<close> function.\<close>

datatype integmanager =
  IntegManager (getIntegrationConfig: "(string \<Rightarrow> string \<Rightarrow> jsval) option")

text \<open>Everything the module does besides returning a value, in the order it happens.\<close>

datatype effect =
    ConsoleWarn string js_exn
  | ConsoleError string "jsval list"
  | Delay nat
  | AxiosCall string axios_config

text \<open>
  The module's state and its host. \<open>config\<close> is \<^verbatim>\<open>BrowserConfig.config\<close>; \<open>al_integmanager\<close> is
  the module variable of that name (\<open>None\<close> when it is falsy); \<open>localStorage\<close> is
  \<^verbatim>\<open>window.localStorage\<close> (\<open>None\<close> without a window or without storage); \<open>JSON_parse\<close> is the
  host's \<^verbatim>\<open>JSON.parse\<close> (\<open>None\<close> when it throws); \<open>axiosPromise\<close> is the imported HTTP client
  (\<open>Inl m\<close> when loading or calling it fails with an error of message \<open>m\<close>), which answers a
  request by its URL and configuration.
\<close>

record world =
  config :: "string \<rightharpoonup> jsval"
  al_integmanager :: "integmanager option"
  localStorage :: "(string \<rightharpoonup> string) option"
  JSON_parse :: "string \<Rightarrow> jsval option"
  axiosPromise :: "jsval + (string \<Rightarrow> axios_config \<Rightarrow> axios_outcome)"
  trace :: "effect list"

definition emit :: "effect \<Rightarrow> world \<Rightarrow> world" where
  "emit e w = w\<lparr>trace := trace w @ [e]\<rparr>"

section \<open>BrowserConfig\<close>

definition config_set :: "(string \<rightharpoonup> jsval) \<Rightarrow> string \<times> jsval \<Rightarrow> (string \<rightharpoonup> jsval)" where
  "config_set m kv = m(fst kv \<mapsto> snd kv)"

definition config_set_if_absent ::
  "(string \<rightharpoonup> jsval) \<Rightarrow> string \<times> jsval \<Rightarrow> (string \<rightharpoonup> jsval)" where
  "config_set_if_absent m kv = (case m (fst kv) of None \<Rightarrow> m(fst kv \<mapsto> snd kv) | Some old \<Rightarrow> m)"

text \<open>
  \<^verbatim>\<open>init\<close>: the entries of the argument are set one by one; then the saved configuration, if
  the host has storage and the item is there and not empty, is parsed and its entries are set
  where the key is not there yet. A failure of \<^verbatim>\<open>JSON.parse\<close> or of \<^verbatim>\<open>Object.entries\<close> on the
  parsed value is caught and logged. (In the first step \<^verbatim>\<open>Object.entries\<close> cannot throw: a truthy
  value of type \<^verbatim>\<open>object\<close> is an object or an array.)
\<close>

definition init :: "jsval \<Rightarrow> world \<Rightarrow> world" where
  "init configObj w =
     (let w1 = (if truthy configObj \<and> typeof configObj = ''object''
                then (case Object_entries configObj of
                        Inr es \<Rightarrow> w\<lparr>config := foldl config_set (config w) es\<rparr>
                      | Inl e \<Rightarrow> w)
                else w)
      in case localStorage w1 of
           None \<Rightarrow> w1
         | Some store \<Rightarrow>
            (case store ''slack_integration_config'' of
               None \<Rightarrow> w1
             | Some savedConfig \<Rightarrow>
                if savedConfig = [] then w1
                else (case JSON_parse w1 savedConfig of
                        None \<Rightarrow> emit (ConsoleWarn ''Failed to parse saved configuration:'' SyntaxError) w1
                      | Some parsed \<Rightarrow>
                         (case Object_entries parsed of
                            Inl e \<Rightarrow> emit (ConsoleWarn ''Failed to parse saved configuration:'' e) w1
                          | Inr es \<Rightarrow> w1\<lparr>config := foldl config_set_if_absent (config w1) es\<rparr>))))"

definition get :: "world \<Rightarrow> string \<Rightarrow> jsval" where
  "get w key = (case config w key of Some v \<Rightarrow> v | None \<Rightarrow> JUndefined)"

section \<open>Credential and channel lookup\<close>

definition getApiKey :: "world \<Rightarrow> jsval" where
  "getApiKey w =
     (case al_integmanager w of
        Some im \<Rightarrow>
          (case getIntegrationConfig im of
             Some f \<Rightarrow>
               (let key = f ''slack'' ''apiKey''
                in if truthy key then key else get w ''apiKey'')
           | None \<Rightarrow> get w ''apiKey'')
      | None \<Rightarrow> get w ''apiKey'')"

definition getChannel :: "world \<Rightarrow> jsval" where
  "getChannel w =
     (case al_integmanager w of
        Some im \<Rightarrow>
          (case getIntegrationConfig im of
             Some f \<Rightarrow>
               (let channel = f ''slack'' ''channel''
                in if truthy channel then channel else get w ''channel'')
           | None \<Rightarrow> get w ''channel'')
      | None \<Rightarrow> get w ''channel'')"

section \<open>The Slack adapter\<close>

definition SlackBaseUrl :: string where
  "SlackBaseUrl = ''https://slack.com/api''"

definition getUrl :: "string \<Rightarrow> string" where
  "getUrl endpoint = SlackBaseUrl @ ''/'' @ endpoint"

definition StandardHeaders :: "world \<Rightarrow> (string \<times> string) list \<times> world" where
  "StandardHeaders w =
     (let apiKey = getApiKey w
      in if \<not> truthy apiKey
         then ([(''Content-Type'', ''application/json'')],
               emit (ConsoleError ''Slack API key not configured'' []) w)
         else ([(''Authorization'', ''Bearer '' @ ToString apiKey),
                (''Content-Type'', ''application/json'')], w))"

definition error_descriptor :: "jsval \<Rightarrow> jsval" where
  "error_descriptor m = JObj [(''error'', m)]"

definition handleAxiosRequest :: "string \<Rightarrow> axios_config \<Rightarrow> world \<Rightarrow> jsval \<times> world" where
  "handleAxiosRequest url cfg w =
     (case axiosPromise w of
        Inl m \<Rightarrow> (error_descriptor m, w)
      | Inr axios \<Rightarrow>
         (let w' = emit (AxiosCall url cfg) w
          in case axios url cfg of
               Resolved r \<Rightarrow> (response_data r, w')
             | Rejected err \<Rightarrow>
                (case error_response err of
                   Some r \<Rightarrow>
                     (error_descriptor
                        (JStr (''HTTP error! status: '' @ string_of_nat (status r) @ '' '' @ statusText r)),
                      w')
                 | None \<Rightarrow>
                     if error_request err
                     then (error_descriptor (JStr ''No response received from server''), w')
                     else (error_descriptor (error_message err), w'))))"

text \<open>Lines 153 to 158 of \<^verbatim>\<open>waitForReply\<close>: the reply read off the \<^verbatim>\<open>messages\<close> value.\<close>

definition reply_of :: "jsval \<Rightarrow> js_exn + jsval" where
  "reply_of msgs =
     (if \<not> truthy msgs then Inr (JStr ''no response'')
      else case get_prop msgs ''length'' of
             Inl e \<Rightarrow> Inl e
           | Inr len \<Rightarrow>
              (case ToNumber len of
                 None \<Rightarrow> Inl Unmodelled
               | Some NaN \<Rightarrow> Inr (JStr ''no response'')
               | Some (Finite n) \<Rightarrow>
                  if n \<ge> 2
                  then (case get_index msgs (n - 1) of
                          Inl e \<Rightarrow> Inl e
                        | Inr m \<Rightarrow> get_prop m ''text'')
                  else Inr (JStr ''no response'')))"

definition waitForReply :: "jsval \<Rightarrow> world \<Rightarrow> (js_exn + jsval) \<times> world" where
  "waitForReply thread w =
     (let channel = getChannel w
      in if \<not> truthy channel
         then (Inr (error_descriptor (JStr ''Channel not configured'')), w)
         else
          (let apiUrl = getUrl (''conversations.replies?ts='' @ ToString thread
                                  @ ''&channel='' @ ToString channel);
               w1 = emit (Delay 10000) w;
               (hdrs, w2) = StandardHeaders w1;
               (resp, w3) = handleAxiosRequest apiUrl
                              \<lparr>http_method = ''GET'', headers = hdrs, data = None\<rparr> w2
           in case get_prop resp ''error'' of
                Inl e \<Rightarrow> (Inl e, w3)
              | Inr err \<Rightarrow>
                 if truthy err then (Inr resp, w3)
                 else (case get_prop resp ''messages'' of
                         Inl e \<Rightarrow> (Inl e, w3)
                       | Inr msgs \<Rightarrow> (reply_of msgs, w3))))"

definition send :: "jsval \<Rightarrow> jsval \<Rightarrow> jsval \<Rightarrow> world \<Rightarrow> (js_exn + jsval) \<times> world" where
  "send channel message env w =
     (let apiUrl = getUrl ''chat.postMessage'';
          slackChannel = getChannel w
      in if \<not> truthy slackChannel
         then (Inr (error_descriptor (JStr ''Slack channel not configured'')), w)
         else
          (let messageBody = JObj [(''channel'', slackChannel), (''text'', message)];
               (hdrs, w1) = StandardHeaders w;
               (result, w2) = handleAxiosRequest apiUrl
                                \<lparr>http_method = ''POST'', headers = hdrs, data = Some messageBody\<rparr> w1
           in case get_prop result ''error'' of
                Inl e \<Rightarrow> (Inl e, w2)
              | Inr err \<Rightarrow>
                 if truthy err
                 then (Inr result, emit (ConsoleError ''Failed to send Slack message:'' [err]) w2)
                 else (get_prop result ''ts'', w2)))"

definition receive :: "jsval \<Rightarrow> jsval \<Rightarrow> world \<Rightarrow> (js_exn + jsval) \<times> world" where
  "receive threadId env w = waitForReply threadId w"

section \<open>Derived notions and example hosts\<close>

text \<open>What the HTTP client answers to a request; \<open>None\<close> when the client could not be
  loaded.\<close>

definition axios_answer :: "world \<Rightarrow> string \<Rightarrow> axios_config \<Rightarrow> axios_outcome option" where
  "axios_answer w url cfg =
     (case axiosPromise w of Inl m \<Rightarrow> None | Inr axios \<Rightarrow> Some (axios url cfg))"

text \<open>The request configuration that \<open>send\<close> builds (lines 171 to 180).\<close>

definition post_config :: "jsval \<Rightarrow> world \<Rightarrow> axios_config" where
  "post_config message w =
     \<lparr>http_method = ''POST'', headers = fst (StandardHeaders w),
      data = Some (JObj [(''channel'', getChannel w), (''text'', message)])\<rparr>"

text \<open>The URL and the request configuration that \<open>waitForReply\<close> builds (lines 139 and 144
  to 147).\<close>

definition replies_url :: "jsval \<Rightarrow> world \<Rightarrow> string" where
  "replies_url thread w =
     getUrl (''conversations.replies?ts='' @ ToString thread
               @ ''&channel='' @ ToString (getChannel w))"

definition get_config :: "world \<Rightarrow> axios_config" where
  "get_config w = \<lparr>http_method = ''GET'', headers = fst (StandardHeaders w), data = None\<rparr>"

text \<open>A host with the given stored configuration, no integration manager and no local
  storage, whose HTTP client answers every request with the given outcome.\<close>

definition answering :: "(string \<rightharpoonup> jsval) \<Rightarrow> axios_outcome \<Rightarrow> world" where
  "answering cfg out =
     \<lparr>config = cfg, al_integmanager = None, localStorage = None, JSON_parse = (\<lambda>s. None),
      axiosPromise = Inr (\<lambda>url c. out), trace = []\<rparr>"

definition ok_response :: axios_response where
  "ok_response = \<lparr>status = 200, statusText = ''OK'',
                   response_data = JObj [(''ok'', JBool True), (''ts'', JStr ''123.45'')]\<rparr>"

definition slack_error_response :: axios_response where
  "slack_error_response =
     \<lparr>status = 200, statusText = ''OK'',
      response_data = JObj [(''ok'', JBool False), (''error'', JStr ''channel_not_found'')]\<rparr>"

definition no_ts_response :: axios_response where
  "no_ts_response = \<lparr>status = 200, statusText = ''OK'', response_data = JObj [(''ok'', JBool True)]\<rparr>"

definition unconfigured_world :: world where
  "unconfigured_world = answering Map.empty (Resolved ok_response)"

definition posting_world :: world where
  "posting_world = answering [''channel'' \<mapsto> JStr ''C1''] (Resolved ok_response)"

definition slack_error_world :: world where
  "slack_error_world = answering [''channel'' \<mapsto> JStr ''C1''] (Resolved slack_error_response)"

definition no_ts_world :: world where
  "no_ts_world = answering [''channel'' \<mapsto> JStr ''C1''] (Resolved no_ts_response)"

definition rate_limited_world :: world where
  "rate_limited_world =
     answering [''channel'' \<mapsto> JStr ''C1'']
       (Rejected \<lparr>error_response =
                    Some \<lparr>status = 429, statusText = ''Too Many Requests'',
                          response_data = JObj [(''ok'', JBool False)]\<rparr>,
                  error_request = True,
                  error_message = JStr ''Request failed with status code 429''\<rparr>)"

definition silent_world :: world where
  "silent_world =
     answering [''channel'' \<mapsto> JStr ''C1'']
       (Rejected \<lparr>error_response = None, error_request = True,
                  error_message = JStr ''timeout of 1000ms exceeded''\<rparr>)"

definition unsendable_world :: world where
  "unsendable_world =
     answering [''channel'' \<mapsto> JStr ''C1'']
       (Rejected \<lparr>error_response = None, error_request = False,
                  error_message = JStr ''Invalid URL''\<rparr>)"





definition keyed_world :: world where
  "keyed_world =
     answering [''channel'' \<mapsto> JStr ''C1'', ''apiKey'' \<mapsto> JStr ''xoxb-1''] (Resolved ok_response)"

text \<open>What the integration manager yields for a setting under the \<^verbatim>\<open>slack\<close> namespace;
  \<open>None\<close> when no manager is loaded or the loaded object has no \<^verbatim>\<open>getIntegrationConfig\<close>.\<close>

definition integration_value :: "world \<Rightarrow> string \<Rightarrow> jsval option" where
  "integration_value w name =
     (case al_integmanager w of
        None \<Rightarrow> None
      | Some im \<Rightarrow>
         (case getIntegrationConfig im of None \<Rightarrow> None | Some f \<Rightarrow> Some (f ''slack'' name)))"

text \<open>The lookup order in the specification's words: ask the integration manager; if it is
  absent or yields a falsy value, fall back to the resolver's \<open>get\<close>.\<close>

definition first_non_empty :: "jsval option \<Rightarrow> jsval \<Rightarrow> jsval" where
  "first_non_empty primary fallback =
     (case primary of
        None \<Rightarrow> fallback
      | Some v \<Rightarrow> if truthy v then v else fallback)"

text \<open>A manager that knows an API key and has an empty channel, over a store that has both
  settings; a manager that knows the channel only; and a loaded object without the
  capability.\<close>

definition managed_world :: world where
  "managed_world =
     \<lparr>config = [''apiKey'' \<mapsto> JStr ''local-key'', ''channel'' \<mapsto> JStr ''C-local''],
      al_integmanager =
        Some (IntegManager (Some (\<lambda>ns name.
          if ns = ''slack'' \<and> name = ''apiKey'' then JStr ''managed-key'' else JStr ''''))),
      localStorage = None, JSON_parse = (\<lambda>s. None),
      axiosPromise = Inr (\<lambda>url c. Resolved ok_response), trace = []\<rparr>"

definition channel_managed_world :: world where
  "channel_managed_world =
     managed_world\<lparr>al_integmanager :=
        Some (IntegManager (Some (\<lambda>ns name.
          if ns = ''slack'' \<and> name = ''channel'' then JStr ''C-managed'' else JNull)))\<rparr>"

definition incapable_world :: world where
  "incapable_world = managed_world\<lparr>al_integmanager := Some (IntegManager None)\<rparr>"

text \<open>A host whose storage holds a saved configuration with \<^verbatim>\<open>apiKey\<close> \<^verbatim>\<open>Y\<close> and \<^verbatim>\<open>channel\<close>
  \<^verbatim>\<open>C\<close>.\<close>

definition quoted :: "string \<Rightarrow> string" where
  "quoted s = CHR 0x22 # s @ [CHR 0x22]"

definition saved_text :: string where
  "saved_text =
     ''{'' @ quoted ''apiKey'' @ '':'' @ quoted ''Y'' @ '','' @ quoted ''channel'' @ '':''
       @ quoted ''C'' @ ''}''"

definition stored_world :: world where
  "stored_world =
     \<lparr>config = Map.empty, al_integmanager = None,
      localStorage = Some [''slack_integration_config'' \<mapsto> saved_text],
      JSON_parse = (\<lambda>s. if s = saved_text
                          then Some (JObj [(''apiKey'', JStr ''Y''), (''channel'', JStr ''C'')])
                          else None),
      axiosPromise = Inl (JStr ''Failed to fetch''), trace = []\<rparr>"

text \<open>A host whose HTTP client could not be loaded: the import of line 1 was rejected.\<close>

definition clientless_world :: world where
  "clientless_world =
     posting_world\<lparr>axiosPromise := Inl (JStr ''Failed to fetch dynamically imported module'')\<rparr>"



section \<open>Logging does not change what is looked up\<close>

lemma get_emit [simp]: "get (emit e w) k = get w k"
  by (simp add: get_def emit_def)

lemma al_integmanager_emit [simp]: "al_integmanager (emit e w) = al_integmanager w"
  by (simp add: emit_def)

lemma getApiKey_emit [simp]: "getApiKey (emit e w) = getApiKey w"
  by (simp add: getApiKey_def Let_def split: option.splits)

lemma getChannel_emit [simp]: "getChannel (emit e w) = getChannel w"
  by (simp add: getChannel_def Let_def split: option.splits)

lemma axiosPromise_emit [simp]: "axiosPromise (emit e w) = axiosPromise w"
  by (simp add: emit_def)

lemma fst_StandardHeaders_emit [simp]:
  "fst (StandardHeaders (emit e w)) = fst (StandardHeaders w)"
  by (simp add: StandardHeaders_def Let_def)

lemma axiosPromise_StandardHeaders [simp]:
  "axiosPromise (snd (StandardHeaders w)) = axiosPromise w"
  by (simp add: StandardHeaders_def Let_def)

section \<open>The request routine on a response\<close>

lemma handleAxiosRequest_resolved:
  assumes "axios_answer w url cfg = Some (Resolved r)"
  shows "handleAxiosRequest url cfg w = (response_data r, emit (AxiosCall url cfg) w)"
  using assms by (simp add: handleAxiosRequest_def axios_answer_def Let_def split: sum.splits)

lemma axios_answer_emit [simp]: "axios_answer (emit e w) = axios_answer w"
  by (simp add: axios_answer_def fun_eq_iff)

lemma axios_answer_StandardHeaders [simp]:
  "axios_answer (snd (StandardHeaders w)) = axios_answer w"
  by (simp add: axios_answer_def fun_eq_iff)

lemma send_resolved:
  assumes ch: "truthy (getChannel w)"
    and res: "axios_answer w (getUrl ''chat.postMessage'') (post_config message w) = Some (Resolved r)"
  shows "send channel message env w =
     (let w2 = emit (AxiosCall (getUrl ''chat.postMessage'') (post_config message w))
                 (snd (StandardHeaders w))
      in case get_prop (response_data r) ''error'' of
           Inl e \<Rightarrow> (Inl e, w2)
         | Inr err \<Rightarrow>
            if truthy err
            then (Inr (response_data r),
                  emit (ConsoleError ''Failed to send Slack message:'' [err]) w2)
            else (get_prop (response_data r) ''ts'', w2))"
proof -
  have res': "axios_answer (snd (StandardHeaders w)) (getUrl ''chat.postMessage'')
                (post_config message w) = Some (Resolved r)"
    using res by simp
  have h: "handleAxiosRequest (getUrl ''chat.postMessage'') (post_config message w)
             (snd (StandardHeaders w))
           = (response_data r,
              emit (AxiosCall (getUrl ''chat.postMessage'') (post_config message w))
                (snd (StandardHeaders w)))"
    by (rule handleAxiosRequest_resolved [OF res'])
  show ?thesis
    using ch h by (simp add: send_def Let_def post_config_def split_beta split: sum.splits)
qed

section \<open>The example hosts\<close>

lemma getChannel_answering: "getChannel (answering cfg out) = (case cfg ''channel'' of Some v \<Rightarrow> v | None \<Rightarrow> JUndefined)"
  by (simp add: getChannel_def answering_def get_def)

lemma getApiKey_answering: "getApiKey (answering cfg out) = (case cfg ''apiKey'' of Some v \<Rightarrow> v | None \<Rightarrow> JUndefined)"
  by (simp add: getApiKey_def answering_def get_def)

lemma axios_answer_answering: "axios_answer (answering cfg out) url c = Some out"
  by (simp add: axios_answer_def answering_def)

section \<open>send\<close>

text \<open>
  C1. Whenever the channel resolves to a falsy value (absent, empty, or any other falsy value),
  \<open>send\<close> returns the descriptor \<^verbatim>\<open>{error: 'Slack channel not configured'}\<close> and leaves the
  world as it was: the trace gains no effect, so no request is made and nothing is logged.
\<close>

theorem send_channel_not_configured:
  assumes "\<not> truthy (getChannel w)"
  shows "send channel message env w =
           (Inr (JObj [(''error'', JStr ''Slack channel not configured'')]), w)"
  using assms by (simp add: send_def Let_def error_descriptor_def)

theorem send_channel_not_configured_witness:
  "\<not> truthy (getChannel unconfigured_world)
   \<and> send (JStr ''C9'') (JStr ''hello'') JUndefined unconfigured_world
     = (Inr (JObj [(''error'', JStr ''Slack channel not configured'')]), unconfigured_world)"
proof -
  have h: "\<not> truthy (getChannel unconfigured_world)"
    by (simp add: unconfigured_world_def getChannel_answering)
  show ?thesis
    using h send_channel_not_configured [OF h] by simp
qed

text \<open>
  C8. The \<open>channel\<close> argument of \<open>send\<close> has no effect: two calls that differ only in it
  return the same result and leave the same world, whose trace holds the request made (its
  URL, headers and body).
\<close>

theorem send_ignores_channel_argument:
  "send channel1 message env w = send channel2 message env w"
  by (simp add: send_def)

theorem send_ignores_channel_argument_witness:
  "send (JStr ''C-other'') (JStr ''hi'') JUndefined posting_world
     = send (JStr ''C1'') (JStr ''hi'') JUndefined posting_world"
  using send_ignores_channel_argument [of "JStr ''C-other''" "JStr ''hi''" JUndefined posting_world
          "JStr ''C1''"]
  by simp

text \<open>
  C2, as the claim states it, fails: Slack answers a rejected post with HTTP status 200 and a
  body \<^verbatim>\<open>{ok: false, error: 'channel_not_found'}\<close>. The channel resolves and the POST succeeds,
  yet \<open>send\<close> returns the whole body (line 184), not the value of its \<^verbatim>\<open>ts\<close> field, which is
  \<^verbatim>\<open>undefined\<close>.
\<close>

theorem send_returns_ts_counterexample:
  "truthy (getChannel slack_error_world)
   \<and> axios_answer slack_error_world (getUrl ''chat.postMessage'')
        (post_config (JStr ''hi'') slack_error_world) = Some (Resolved slack_error_response)
   \<and> get_prop (response_data slack_error_response) ''ts'' = Inr JUndefined
   \<and> fst (send (JStr ''C1'') (JStr ''hi'') JUndefined slack_error_world)
       = Inr (JObj [(''ok'', JBool False), (''error'', JStr ''channel_not_found'')])
   \<and> fst (send (JStr ''C1'') (JStr ''hi'') JUndefined slack_error_world)
       \<noteq> get_prop (response_data slack_error_response) ''ts''"
proof -
  have ch: "truthy (getChannel slack_error_world)"
    by (simp add: slack_error_world_def getChannel_answering)
  have res: "axios_answer slack_error_world (getUrl ''chat.postMessage'')
        (post_config (JStr ''hi'') slack_error_world) = Some (Resolved slack_error_response)"
    by (simp add: slack_error_world_def axios_answer_answering)
  have ts: "get_prop (response_data slack_error_response) ''ts'' = Inr JUndefined"
    by (simp add: slack_error_response_def)
  have r: "fst (send (JStr ''C1'') (JStr ''hi'') JUndefined slack_error_world)
       = Inr (JObj [(''ok'', JBool False), (''error'', JStr ''channel_not_found'')])"
    by (simp add: send_resolved [OF ch res] Let_def slack_error_response_def)
  show ?thesis using ch res ts r by simp
qed

text \<open>
  C2, amended. When the channel resolves, the POST succeeds and the \<^verbatim>\<open>error\<close> field of the
  response body can be read and is falsy, \<open>send\<close> returns exactly the value of the body's
  \<^verbatim>\<open>ts\<close> field. For the body \<^verbatim>\<open>{ok: true, ts: '123.45'}\<close> that is the string \<^verbatim>\<open>'123.45'\<close>.
\<close>

theorem send_returns_ts:
  assumes "truthy (getChannel w)"
    and "axios_answer w (getUrl ''chat.postMessage'') (post_config message w) = Some (Resolved r)"
    and "get_prop (response_data r) ''error'' = Inr err"
    and "\<not> truthy err"
  shows "fst (send channel message env w) = get_prop (response_data r) ''ts''"
  using assms(3,4) by (simp add: send_resolved [OF assms(1,2)] Let_def)

theorem send_returns_ts_witness:
  "truthy (getChannel posting_world)
   \<and> axios_answer posting_world (getUrl ''chat.postMessage'')
        (post_config (JStr ''hi'') posting_world) = Some (Resolved ok_response)
   \<and> get_prop (response_data ok_response) ''error'' = Inr JUndefined
   \<and> \<not> truthy JUndefined
   \<and> fst (send (JStr ''C1'') (JStr ''hi'') JUndefined posting_world) = Inr (JStr ''123.45'')"
proof -
  have ch: "truthy (getChannel posting_world)"
    by (simp add: posting_world_def getChannel_answering)
  have res: "axios_answer posting_world (getUrl ''chat.postMessage'')
        (post_config (JStr ''hi'') posting_world) = Some (Resolved ok_response)"
    by (simp add: posting_world_def axios_answer_answering)
  have er: "get_prop (response_data ok_response) ''error'' = Inr JUndefined"
    by (simp add: ok_response_def)
  have nt: "\<not> truthy JUndefined" by simp
  have ts: "get_prop (response_data ok_response) ''ts'' = Inr (JStr ''123.45'')"
    by (simp add: ok_response_def)
  show ?thesis
    using ch res er nt ts send_returns_ts [OF ch res er nt, of "JStr ''C1''" JUndefined] by simp
qed

text \<open>
  C10. When the channel resolves, the request is answered with a response, the \<^verbatim>\<open>error\<close>
  field of the body is falsy and the body has no \<^verbatim>\<open>ts\<close> field (reading it gives
  \<^verbatim>\<open>undefined\<close>), \<open>send\<close> returns \<^verbatim>\<open>undefined\<close> and not an error descriptor.
\<close>

theorem send_without_ts:
  assumes "truthy (getChannel w)"
    and "axios_answer w (getUrl ''chat.postMessage'') (post_config message w) = Some (Resolved r)"
    and "get_prop (response_data r) ''error'' = Inr err"
    and "\<not> truthy err"
    and "get_prop (response_data r) ''ts'' = Inr JUndefined"
  shows "fst (send channel message env w) = Inr JUndefined"
  using assms(3,4,5) by (simp add: send_resolved [OF assms(1,2)] Let_def)

theorem send_without_ts_witness:
  "truthy (getChannel no_ts_world)
   \<and> axios_answer no_ts_world (getUrl ''chat.postMessage'')
        (post_config (JStr ''hi'') no_ts_world) = Some (Resolved no_ts_response)
   \<and> get_prop (response_data no_ts_response) ''error'' = Inr JUndefined
   \<and> \<not> truthy JUndefined
   \<and> get_prop (response_data no_ts_response) ''ts'' = Inr JUndefined
   \<and> fst (send (JStr ''C1'') (JStr ''hi'') JUndefined no_ts_world) = Inr JUndefined"
proof -
  have ch: "truthy (getChannel no_ts_world)"
    by (simp add: no_ts_world_def getChannel_answering)
  have res: "axios_answer no_ts_world (getUrl ''chat.postMessage'')
        (post_config (JStr ''hi'') no_ts_world) = Some (Resolved no_ts_response)"
    by (simp add: no_ts_world_def axios_answer_answering)
  have er: "get_prop (response_data no_ts_response) ''error'' = Inr JUndefined"
    by (simp add: no_ts_response_def)
  have nt: "\<not> truthy JUndefined" by simp
  have ts: "get_prop (response_data no_ts_response) ''ts'' = Inr JUndefined"
    by (simp add: no_ts_response_def)
  show ?thesis
    using ch res er nt ts send_without_ts [OF ch res er nt ts, of "JStr ''C1''" JUndefined] by simp
qed

section \<open>receive\<close>

text \<open>
  C5. Whenever the channel resolves to a falsy value, \<open>receive\<close> returns the descriptor
  \<^verbatim>\<open>{error: 'Channel not configured'}\<close> and leaves the world as it was: the trace gains neither
  the delay nor a request.
\<close>

theorem receive_channel_not_configured:
  assumes "\<not> truthy (getChannel w)"
  shows "receive threadId env w = (Inr (JObj [(''error'', JStr ''Channel not configured'')]), w)"
  using assms by (simp add: receive_def waitForReply_def Let_def error_descriptor_def)

theorem receive_channel_not_configured_witness:
  "\<not> truthy (getChannel unconfigured_world)
   \<and> receive (JStr ''T1'') JUndefined unconfigured_world
     = (Inr (JObj [(''error'', JStr ''Channel not configured'')]), unconfigured_world)"
proof -
  have h: "\<not> truthy (getChannel unconfigured_world)"
    by (simp add: unconfigured_world_def getChannel_answering)
  show ?thesis
    using h receive_channel_not_configured [OF h] by simp
qed
section \<open>handleAxiosRequest on a failure\<close>

text \<open>
  C3. Whenever the request fails, the routine returns an error descriptor. When the HTTP
  client rejects the request there are three cases: a response arrived (axios rejects it for
  its status), and the message is \<^verbatim>\<open>HTTP error! status: \<close> followed by the status in
  decimal, a space and the status text; no response arrived although a request was made, and
  the message is the fixed \<^verbatim>\<open>No response received from server\<close>; or no request was made, and
  the message is the message of the error itself. When the client itself could not be
  obtained (line 110, inside the \<^verbatim>\<open>try\<close>), the request could not be sent either: the message
  is again the message of the error, and nothing is traced.
\<close>

theorem handleAxiosRequest_failure:
  "(axios_answer w url cfg = Some (Rejected err) \<longrightarrow>
      fst (handleAxiosRequest url cfg w) =
        JObj [(''error'',
               case error_response err of
                 Some r \<Rightarrow>
                   JStr (''HTTP error! status: '' @ string_of_nat (status r) @ '' '' @ statusText r)
               | None \<Rightarrow>
                   if error_request err then JStr ''No response received from server''
                   else error_message err)])
   \<and> (axiosPromise w = Inl m \<longrightarrow>
      handleAxiosRequest url cfg w = (JObj [(''error'', m)], w))"
proof -
  have rejected: "fst (handleAxiosRequest url cfg w) =
        JObj [(''error'',
               case error_response err of
                 Some r \<Rightarrow>
                   JStr (''HTTP error! status: '' @ string_of_nat (status r) @ '' '' @ statusText r)
               | None \<Rightarrow>
                   if error_request err then JStr ''No response received from server''
                   else error_message err)]"
    if "axios_answer w url cfg = Some (Rejected err)"
    using that
    by (simp add: handleAxiosRequest_def axios_answer_def Let_def error_descriptor_def
             split: sum.splits option.splits)
  have unloaded: "handleAxiosRequest url cfg w = (JObj [(''error'', m)], w)"
    if "axiosPromise w = Inl m"
    using that by (simp add: handleAxiosRequest_def error_descriptor_def)
  show ?thesis
    using rejected unloaded by blast
qed

theorem handleAxiosRequest_failure_witness:
  "axios_answer rate_limited_world (getUrl ''chat.postMessage'')
      (post_config (JStr ''hi'') rate_limited_world)
     = Some (Rejected \<lparr>error_response =
                Some \<lparr>status = 429, statusText = ''Too Many Requests'',
                      response_data = JObj [(''ok'', JBool False)]\<rparr>,
              error_request = True,
              error_message = JStr ''Request failed with status code 429''\<rparr>)
   \<and> fst (handleAxiosRequest (getUrl ''chat.postMessage'') (post_config (JStr ''hi'') rate_limited_world)
          rate_limited_world)
     = JObj [(''error'', JStr ''HTTP error! status: 429 Too Many Requests'')]
   \<and> axios_answer silent_world (getUrl ''chat.postMessage'') (post_config (JStr ''hi'') silent_world)
     = Some (Rejected \<lparr>error_response = None, error_request = True,
                      error_message = JStr ''timeout of 1000ms exceeded''\<rparr>)
   \<and> fst (handleAxiosRequest (getUrl ''chat.postMessage'') (post_config (JStr ''hi'') silent_world)
          silent_world)
     = JObj [(''error'', JStr ''No response received from server'')]
   \<and> axios_answer unsendable_world (getUrl ''chat.postMessage'')
        (post_config (JStr ''hi'') unsendable_world)
     = Some (Rejected \<lparr>error_response = None, error_request = False,
                      error_message = JStr ''Invalid URL''\<rparr>)
   \<and> fst (handleAxiosRequest (getUrl ''chat.postMessage'') (post_config (JStr ''hi'') unsendable_world)
          unsendable_world)
     = JObj [(''error'', JStr ''Invalid URL'')]
   \<and> axiosPromise clientless_world = Inl (JStr ''Failed to fetch dynamically imported module'')
   \<and> handleAxiosRequest (getUrl ''chat.postMessage'') (post_config (JStr ''hi'') clientless_world)
        clientless_world
     = (JObj [(''error'', JStr ''Failed to fetch dynamically imported module'')], clientless_world)"
proof -
  have a: "axios_answer rate_limited_world (getUrl ''chat.postMessage'')
             (post_config (JStr ''hi'') rate_limited_world)
           = Some (Rejected \<lparr>error_response =
                    Some \<lparr>status = 429, statusText = ''Too Many Requests'',
                          response_data = JObj [(''ok'', JBool False)]\<rparr>,
                  error_request = True,
                  error_message = JStr ''Request failed with status code 429''\<rparr>)"
    by (simp add: rate_limited_world_def axios_answer_answering)
  have b: "axios_answer silent_world (getUrl ''chat.postMessage'')
             (post_config (JStr ''hi'') silent_world)
           = Some (Rejected \<lparr>error_response = None, error_request = True,
                  error_message = JStr ''timeout of 1000ms exceeded''\<rparr>)"
    by (simp add: silent_world_def axios_answer_answering)
  have c: "axios_answer unsendable_world (getUrl ''chat.postMessage'')
             (post_config (JStr ''hi'') unsendable_world)
           = Some (Rejected \<lparr>error_response = None, error_request = False,
                  error_message = JStr ''Invalid URL''\<rparr>)"
    by (simp add: unsendable_world_def axios_answer_answering)
  have d: "axiosPromise clientless_world = Inl (JStr ''Failed to fetch dynamically imported module'')"
    by (simp add: clientless_world_def)
  have n: "string_of_nat 429 = ''429''"
    by (simp add: string_of_nat.simps digit_char_def)
  note i1 = handleAxiosRequest_failure [where w = rate_limited_world
      and url = "getUrl ''chat.postMessage''"
      and cfg = "post_config (JStr ''hi'') rate_limited_world"
      and err = "\<lparr>error_response =
                    Some \<lparr>status = 429, statusText = ''Too Many Requests'',
                          response_data = JObj [(''ok'', JBool False)]\<rparr>,
                  error_request = True,
                  error_message = JStr ''Request failed with status code 429''\<rparr>"]
  note i2 = handleAxiosRequest_failure [where w = silent_world
      and url = "getUrl ''chat.postMessage''"
      and cfg = "post_config (JStr ''hi'') silent_world"
      and err = "\<lparr>error_response = None, error_request = True,
                  error_message = JStr ''timeout of 1000ms exceeded''\<rparr>"]
  note i3 = handleAxiosRequest_failure [where w = unsendable_world
      and url = "getUrl ''chat.postMessage''"
      and cfg = "post_config (JStr ''hi'') unsendable_world"
      and err = "\<lparr>error_response = None, error_request = False,
                  error_message = JStr ''Invalid URL''\<rparr>"]
  note i4 = handleAxiosRequest_failure [where w = clientless_world
      and url = "getUrl ''chat.postMessage''"
      and cfg = "post_config (JStr ''hi'') clientless_world"
      and m = "JStr ''Failed to fetch dynamically imported module''"]
  have r1: "fst (handleAxiosRequest (getUrl ''chat.postMessage'')
                  (post_config (JStr ''hi'') rate_limited_world) rate_limited_world)
     = JObj [(''error'', JStr ''HTTP error! status: 429 Too Many Requests'')]"
    using i1 a n by simp
  have r2: "fst (handleAxiosRequest (getUrl ''chat.postMessage'')
                  (post_config (JStr ''hi'') silent_world) silent_world)
     = JObj [(''error'', JStr ''No response received from server'')]"
    using i2 b by simp
  have r3: "fst (handleAxiosRequest (getUrl ''chat.postMessage'')
                  (post_config (JStr ''hi'') unsendable_world) unsendable_world)
     = JObj [(''error'', JStr ''Invalid URL'')]"
    using i3 c by simp
  have r4: "handleAxiosRequest (getUrl ''chat.postMessage'')
              (post_config (JStr ''hi'') clientless_world) clientless_world
     = (JObj [(''error'', JStr ''Failed to fetch dynamically imported module'')], clientless_world)"
    using i4 d by simp
  show ?thesis
    using a b c d r1 r2 r3 r4 by simp
qed

section \<open>The reply read off a response\<close>









section \<open>Headers\<close>

lemma trace_emit: "trace (emit e w) = trace w @ [e]"
  by (simp add: emit_def)

lemma snd_handleAxiosRequest:
  assumes "axios_answer w url cfg = Some out"
  shows "snd (handleAxiosRequest url cfg w) = emit (AxiosCall url cfg) w"
  using assms
  by (simp add: handleAxiosRequest_def axios_answer_def Let_def
           split: sum.splits axios_outcome.splits option.splits)

lemma StandardHeaders_without_key:
  assumes "\<not> truthy (getApiKey w)"
  shows "StandardHeaders w =
           ([(''Content-Type'', ''application/json'')],
            emit (ConsoleError ''Slack API key not configured'' []) w)"
  using assms by (simp add: StandardHeaders_def Let_def)

lemma trace_send:
  assumes "truthy (getChannel w)"
  shows "\<exists>rest. trace (snd (send channel message env w)) =
           trace (snd (handleAxiosRequest (getUrl ''chat.postMessage'') (post_config message w)
                         (snd (StandardHeaders w)))) @ rest"
proof -
  let ?h = "handleAxiosRequest (getUrl ''chat.postMessage'') (post_config message w)
              (snd (StandardHeaders w))"
  have s: "send channel message env w =
             (case get_prop (fst ?h) ''error'' of
                Inl e \<Rightarrow> (Inl e, snd ?h)
              | Inr err \<Rightarrow>
                 if truthy err
                 then (Inr (fst ?h), emit (ConsoleError ''Failed to send Slack message:'' [err]) (snd ?h))
                 else (get_prop (fst ?h) ''ts'', snd ?h))"
    using assms by (simp add: send_def Let_def split_beta post_config_def split: sum.splits)
  show ?thesis
  proof (cases "get_prop (fst ?h) ''error''")
    case (Inl e)
    then show ?thesis by (simp add: s)
  next
    case (Inr err)
    then show ?thesis by (simp add: s emit_def)
  qed
qed

lemma trace_waitForReply:
  assumes "truthy (getChannel w)"
  shows "trace (snd (waitForReply thread w)) =
           trace (snd (handleAxiosRequest (replies_url thread w) (get_config w)
                         (snd (StandardHeaders (emit (Delay 10000) w)))))"
proof -
  let ?h = "handleAxiosRequest (replies_url thread w) (get_config w)
              (snd (StandardHeaders (emit (Delay 10000) w)))"
  have s: "waitForReply thread w =
             (case get_prop (fst ?h) ''error'' of
                Inl e \<Rightarrow> (Inl e, snd ?h)
              | Inr err \<Rightarrow>
                 if truthy err then (Inr (fst ?h), snd ?h)
                 else (case get_prop (fst ?h) ''messages'' of
                         Inl e \<Rightarrow> (Inl e, snd ?h)
                       | Inr msgs \<Rightarrow> (reply_of msgs, snd ?h)))"
    using assms
    by (simp add: waitForReply_def Let_def split_beta get_config_def replies_url_def
             split: sum.splits)
  show ?thesis
    by (simp add: s split: sum.splits)
qed

lemma send_trace_without_key:
  assumes key: "\<not> truthy (getApiKey w)"
    and ch: "truthy (getChannel w)"
    and res: "axios_answer w (getUrl ''chat.postMessage'') (post_config message w) = Some out"
  shows "\<exists>rest. trace (snd (send channel message env w)) =
           trace w @ [ConsoleError ''Slack API key not configured'' [],
                      AxiosCall (getUrl ''chat.postMessage'')
                        \<lparr>http_method = ''POST'',
                         headers = [(''Content-Type'', ''application/json'')],
                         data = Some (JObj [(''channel'', getChannel w), (''text'', message)])\<rparr>]
             @ rest"
proof -
  have pc: "post_config message w =
              \<lparr>http_method = ''POST'', headers = [(''Content-Type'', ''application/json'')],
               data = Some (JObj [(''channel'', getChannel w), (''text'', message)])\<rparr>"
    by (simp add: post_config_def StandardHeaders_without_key [OF key])
  have res': "axios_answer (snd (StandardHeaders w)) (getUrl ''chat.postMessage'')
                (post_config message w) = Some out"
    using res by simp
  have "trace (snd (handleAxiosRequest (getUrl ''chat.postMessage'') (post_config message w)
                      (snd (StandardHeaders w))))
        = trace w @ [ConsoleError ''Slack API key not configured'' [],
                     AxiosCall (getUrl ''chat.postMessage'') (post_config message w)]"
    unfolding snd_handleAxiosRequest [OF res']
    by (simp add: StandardHeaders_without_key [OF key] trace_emit)
  then show ?thesis
    using trace_send [OF ch, of channel message env] by (simp add: pc)
qed

lemma receive_trace_without_key:
  assumes key: "\<not> truthy (getApiKey w)"
    and ch: "truthy (getChannel w)"
    and res: "axios_answer w (replies_url threadId w) (get_config w) = Some out"
  shows "trace (snd (receive threadId env w)) =
           trace w @ [Delay 10000, ConsoleError ''Slack API key not configured'' [],
                      AxiosCall (replies_url threadId w)
                        \<lparr>http_method = ''GET'',
                         headers = [(''Content-Type'', ''application/json'')],
                         data = None\<rparr>]"
proof -
  have key': "\<not> truthy (getApiKey (emit (Delay 10000) w))"
    using key by simp
  have gc: "get_config w =
              \<lparr>http_method = ''GET'', headers = [(''Content-Type'', ''application/json'')],
               data = None\<rparr>"
    by (simp add: get_config_def StandardHeaders_without_key [OF key])
  have res': "axios_answer (snd (StandardHeaders (emit (Delay 10000) w)))
                (replies_url threadId w) (get_config w) = Some out"
    using res by simp
  have "trace (snd (handleAxiosRequest (replies_url threadId w) (get_config w)
                      (snd (StandardHeaders (emit (Delay 10000) w)))))
        = trace w @ [Delay 10000, ConsoleError ''Slack API key not configured'' [],
                     AxiosCall (replies_url threadId w) (get_config w)]"
    unfolding snd_handleAxiosRequest [OF res']
    by (simp add: StandardHeaders_without_key [OF key'] trace_emit)
  then show ?thesis
    by (simp add: receive_def trace_waitForReply [OF ch] gc)
qed

text \<open>
  C9. The headers built by \<open>StandardHeaders\<close> hold \<^verbatim>\<open>Content-Type: application/json\<close> always,
  \<^verbatim>\<open>Authorization: Bearer \<close> followed by the key exactly when the API key resolves to a truthy
  value, and nothing else. When no key resolves, the routine logs
  \<^verbatim>\<open>Slack API key not configured\<close> and changes nothing else; and \<open>send\<close> and \<open>receive\<close>, when
  the channel resolves and the HTTP client is there, log that and then make their request
  with the \<^verbatim>\<open>Content-Type\<close> header alone.
\<close>

theorem StandardHeaders_contract:
  "map_of (fst (StandardHeaders w)) ''Content-Type'' = Some ''application/json''
   \<and> map_of (fst (StandardHeaders w)) ''Authorization''
       = (if truthy (getApiKey w) then Some (''Bearer '' @ ToString (getApiKey w)) else None)
   \<and> dom (map_of (fst (StandardHeaders w))) \<subseteq> {''Content-Type'', ''Authorization''}
   \<and> snd (StandardHeaders w)
       = (if truthy (getApiKey w) then w
          else emit (ConsoleError ''Slack API key not configured'' []) w)
   \<and> (\<not> truthy (getApiKey w) \<and> truthy (getChannel w)
        \<and> axios_answer w (getUrl ''chat.postMessage'') (post_config message w) = Some out1
      \<longrightarrow> (\<exists>rest. trace (snd (send channel message env w)) =
             trace w @ [ConsoleError ''Slack API key not configured'' [],
                        AxiosCall (getUrl ''chat.postMessage'')
                          \<lparr>http_method = ''POST'',
                           headers = [(''Content-Type'', ''application/json'')],
                           data = Some (JObj [(''channel'', getChannel w), (''text'', message)])\<rparr>]
               @ rest))
   \<and> (\<not> truthy (getApiKey w) \<and> truthy (getChannel w)
        \<and> axios_answer w (replies_url threadId w) (get_config w) = Some out2
      \<longrightarrow> trace (snd (receive threadId env w)) =
             trace w @ [Delay 10000, ConsoleError ''Slack API key not configured'' [],
                        AxiosCall (replies_url threadId w)
                          \<lparr>http_method = ''GET'',
                           headers = [(''Content-Type'', ''application/json'')],
                           data = None\<rparr>])"
proof -
  have a: "map_of (fst (StandardHeaders w)) ''Content-Type'' = Some ''application/json''"
    by (simp add: StandardHeaders_def Let_def)
  have b: "map_of (fst (StandardHeaders w)) ''Authorization''
       = (if truthy (getApiKey w) then Some (''Bearer '' @ ToString (getApiKey w)) else None)"
    by (simp add: StandardHeaders_def Let_def)
  have c: "dom (map_of (fst (StandardHeaders w))) \<subseteq> {''Content-Type'', ''Authorization''}"
    by (auto simp: StandardHeaders_def Let_def split: if_splits)
  have d: "snd (StandardHeaders w)
       = (if truthy (getApiKey w) then w
          else emit (ConsoleError ''Slack API key not configured'' []) w)"
    by (simp add: StandardHeaders_def Let_def)
  show ?thesis
    using a b c d send_trace_without_key [of w message out1 channel env]
      receive_trace_without_key [of w threadId out2 env]
    by blast
qed

theorem StandardHeaders_contract_witness:
  "map_of (fst (StandardHeaders keyed_world)) ''Content-Type'' = Some ''application/json''
   \<and> map_of (fst (StandardHeaders keyed_world)) ''Authorization'' = Some ''Bearer xoxb-1''
   \<and> snd (StandardHeaders keyed_world) = keyed_world
   \<and> \<not> truthy (getApiKey posting_world) \<and> truthy (getChannel posting_world)
   \<and> axios_answer posting_world (getUrl ''chat.postMessage'')
        (post_config (JStr ''hi'') posting_world) = Some (Resolved ok_response)
   \<and> axios_answer posting_world (replies_url (JStr ''T1'') posting_world)
        (get_config posting_world) = Some (Resolved ok_response)
   \<and> map_of (fst (StandardHeaders posting_world)) ''Content-Type'' = Some ''application/json''
   \<and> map_of (fst (StandardHeaders posting_world)) ''Authorization'' = None
   \<and> trace (snd (StandardHeaders posting_world)) = [ConsoleError ''Slack API key not configured'' []]
   \<and> trace (snd (send (JStr ''C9'') (JStr ''hi'') JUndefined posting_world)) =
        [ConsoleError ''Slack API key not configured'' [],
         AxiosCall ''https://slack.com/api/chat.postMessage''
           \<lparr>http_method = ''POST'', headers = [(''Content-Type'', ''application/json'')],
            data = Some (JObj [(''channel'', JStr ''C1''), (''text'', JStr ''hi'')])\<rparr>]
   \<and> trace (snd (receive (JStr ''T1'') JUndefined posting_world)) =
        [Delay 10000, ConsoleError ''Slack API key not configured'' [],
         AxiosCall ''https://slack.com/api/conversations.replies?ts=T1&channel=C1''
           \<lparr>http_method = ''GET'', headers = [(''Content-Type'', ''application/json'')],
            data = None\<rparr>]"
proof -
  have k1: "getApiKey keyed_world = JStr ''xoxb-1''"
    by (simp add: keyed_world_def getApiKey_answering)
  have k2: "\<not> truthy (getApiKey posting_world)"
    by (simp add: posting_world_def getApiKey_answering)
  have ch: "getChannel posting_world = JStr ''C1''"
    by (simp add: posting_world_def getChannel_answering)
  have r1: "axios_answer posting_world (getUrl ''chat.postMessage'')
        (post_config (JStr ''hi'') posting_world) = Some (Resolved ok_response)"
    by (simp add: posting_world_def axios_answer_answering)
  have r2: "axios_answer posting_world (replies_url (JStr ''T1'') posting_world)
        (get_config posting_world) = Some (Resolved ok_response)"
    by (simp add: posting_world_def axios_answer_answering)
  have t0: "trace posting_world = []"
    by (simp add: posting_world_def answering_def)
  have s: "trace (snd (send (JStr ''C9'') (JStr ''hi'') JUndefined posting_world)) =
        [ConsoleError ''Slack API key not configured'' [],
         AxiosCall ''https://slack.com/api/chat.postMessage''
           \<lparr>http_method = ''POST'', headers = [(''Content-Type'', ''application/json'')],
            data = Some (JObj [(''channel'', JStr ''C1''), (''text'', JStr ''hi'')])\<rparr>]"
    using k2 ch
    by (simp add: send_resolved [OF _ r1] Let_def ok_response_def post_config_def
          StandardHeaders_def emit_def t0 getUrl_def SlackBaseUrl_def)
  note inst1 = StandardHeaders_contract [of keyed_world "JStr ''hi''" "Resolved ok_response"
      "JStr ''C9''" JUndefined "JStr ''T1''" "Resolved ok_response"]
  note inst2 = StandardHeaders_contract [of posting_world "JStr ''hi''" "Resolved ok_response"
      "JStr ''C9''" JUndefined "JStr ''T1''" "Resolved ok_response"]
  show ?thesis
    using inst1 inst2 k1 k2 ch r1 r2 t0 s
    by (simp add: emit_def replies_url_def getUrl_def SlackBaseUrl_def)
qed

section \<open>BrowserConfig.init\<close>

lemma foldl_config_set:
  "distinct (map fst es) \<Longrightarrow> foldl config_set m es = m ++ map_of es"
proof (induction es arbitrary: m)
  case Nil
  then show ?case by simp
next
  case (Cons kv es)
  obtain k v where kv: "kv = (k, v)" by (cases kv)
  from Cons.prems have fresh: "map_of es k = None"
    by (simp add: kv map_of_eq_None_iff)
  from Cons.prems have dist: "distinct (map fst es)" by simp
  have "foldl config_set m (kv # es) = foldl config_set (config_set m kv) es"
    by simp
  also have "\<dots> = config_set m kv ++ map_of es"
    by (rule Cons.IH [OF dist])
  also have "\<dots> = m ++ map_of (kv # es)"
    using fresh by (auto simp: kv config_set_def map_add_def fun_eq_iff split: option.splits)
  finally show ?case .
qed

lemma foldl_config_set_if_absent:
  "foldl config_set_if_absent m es = map_of es ++ m"
proof (induction es arbitrary: m)
  case Nil
  then show ?case by simp
next
  case (Cons kv es)
  obtain k v where kv: "kv = (k, v)" by (cases kv)
  have "foldl config_set_if_absent m (kv # es)
          = foldl config_set_if_absent (config_set_if_absent m kv) es"
    by simp
  also have "\<dots> = map_of es ++ config_set_if_absent m kv"
    by (rule Cons.IH)
  also have "\<dots> = map_of (kv # es) ++ m"
    by (auto simp: kv config_set_if_absent_def map_add_def fun_eq_iff split: option.splits)
  finally show ?case .
qed

lemma init_with_saved_object:
  assumes "localStorage w = Some store"
    and "store ''slack_integration_config'' = Some saved"
    and "saved \<noteq> []"
    and "JSON_parse w saved = Some (JObj persisted)"
  shows "init (JObj initial) w =
           w\<lparr>config := foldl config_set_if_absent (foldl config_set (config w) initial) persisted\<rparr>"
  using assms by (simp add: init_def Let_def)

text \<open>
  C6. With an object \<open>initial\<close> and a saved configuration that parses to an object
  \<open>persisted\<close>, \<open>init\<close> leaves the mapping that has the entries of \<open>initial\<close> over those it
  had before, and below them the entries of \<open>persisted\<close> for the keys not yet there. So a
  lookup gives the value of \<open>initial\<close> when it has the key, else the value held before, else
  the persisted value, else \<^verbatim>\<open>undefined\<close>.
\<close>

theorem init_precedence:
  assumes "distinct (map fst initial)"
    and "localStorage w = Some store"
    and "store ''slack_integration_config'' = Some saved"
    and "saved \<noteq> []"
    and "JSON_parse w saved = Some (JObj persisted)"
  shows "config (init (JObj initial) w) = map_of persisted ++ (config w ++ map_of initial)
     \<and> get (init (JObj initial) w) key =
         (case map_of initial key of
            Some v \<Rightarrow> v
          | None \<Rightarrow>
             (case config w key of
                Some v \<Rightarrow> v
              | None \<Rightarrow> (case map_of persisted key of Some v \<Rightarrow> v | None \<Rightarrow> JUndefined)))"
proof -
  have c: "config (init (JObj initial) w) = map_of persisted ++ (config w ++ map_of initial)"
    by (simp add: init_with_saved_object [OF assms(2-5)] foldl_config_set_if_absent
          foldl_config_set [OF assms(1)])
  show ?thesis
    unfolding get_def c by (simp add: map_add_def split: option.splits)
qed

theorem init_precedence_witness:
  "distinct (map fst [(''apiKey'', JStr ''X'')])
   \<and> localStorage stored_world = Some [''slack_integration_config'' \<mapsto> saved_text]
   \<and> [''slack_integration_config'' \<mapsto> saved_text] ''slack_integration_config'' = Some saved_text
   \<and> saved_text \<noteq> []
   \<and> JSON_parse stored_world saved_text
        = Some (JObj [(''apiKey'', JStr ''Y''), (''channel'', JStr ''C'')])
   \<and> get (init (JObj [(''apiKey'', JStr ''X'')]) stored_world) ''apiKey'' = JStr ''X''
   \<and> get (init (JObj [(''apiKey'', JStr ''X'')]) stored_world) ''channel'' = JStr ''C''"
proof -
  have d: "distinct (map fst [(''apiKey'', JStr ''X'')])" by simp
  have l: "localStorage stored_world = Some [''slack_integration_config'' \<mapsto> saved_text]"
    by (simp add: stored_world_def)
  have s: "[''slack_integration_config'' \<mapsto> saved_text] ''slack_integration_config''
             = Some saved_text"
    by simp
  have n: "saved_text \<noteq> []" by (simp add: saved_text_def quoted_def)
  have p: "JSON_parse stored_world saved_text
             = Some (JObj [(''apiKey'', JStr ''Y''), (''channel'', JStr ''C'')])"
    by (simp add: stored_world_def)
  have e: "config stored_world = Map.empty" by (simp add: stored_world_def)
  show ?thesis
    using d l s n p init_precedence [OF d l s n p, of "''apiKey''"]
      init_precedence [OF d l s n p, of "''channel''"]
    by (simp add: e)
qed

section \<open>Credential and channel lookup\<close>

text \<open>
  C7. \<open>getApiKey\<close> and \<open>getChannel\<close> are the two-tier lookup: the value of the integration
  manager when it is there and truthy, else the resolver's \<open>get\<close>. A truthy value of the
  manager is returned whatever the local store holds; when the manager is absent (none
  loaded, or the loaded object has no \<^verbatim>\<open>getIntegrationConfig\<close>) or its value is falsy, the
  result is what the local store holds.
\<close>

theorem lookup_two_tier:
  "getApiKey w = first_non_empty (integration_value w ''apiKey'') (get w ''apiKey'')
   \<and> getChannel w = first_non_empty (integration_value w ''channel'') (get w ''channel'')
   \<and> (integration_value w ''apiKey'' = Some v \<and> truthy v
        \<longrightarrow> getApiKey (w\<lparr>config := c\<rparr>) = v)
   \<and> (integration_value w ''channel'' = Some v' \<and> truthy v'
        \<longrightarrow> getChannel (w\<lparr>config := c\<rparr>) = v')
   \<and> (integration_value w ''apiKey'' = None
         \<or> (\<exists>u. integration_value w ''apiKey'' = Some u \<and> \<not> truthy u)
        \<longrightarrow> getApiKey (w\<lparr>config := c\<rparr>) = (case c ''apiKey'' of Some x \<Rightarrow> x | None \<Rightarrow> JUndefined))
   \<and> (integration_value w ''channel'' = None
         \<or> (\<exists>u. integration_value w ''channel'' = Some u \<and> \<not> truthy u)
        \<longrightarrow> getChannel (w\<lparr>config := c\<rparr>) = (case c ''channel'' of Some x \<Rightarrow> x | None \<Rightarrow> JUndefined))"
proof -
  have k: "getApiKey u = first_non_empty (integration_value u ''apiKey'') (get u ''apiKey'')"
    for u
    by (simp add: getApiKey_def first_non_empty_def integration_value_def Let_def
          split: option.splits)
  have ch: "getChannel u = first_non_empty (integration_value u ''channel'') (get u ''channel'')"
    for u
    by (simp add: getChannel_def first_non_empty_def integration_value_def Let_def
          split: option.splits)
  have iv: "integration_value (w\<lparr>config := c\<rparr>) name = integration_value w name" for name
    by (simp add: integration_value_def)
  have g: "get (w\<lparr>config := c\<rparr>) name = (case c name of Some x \<Rightarrow> x | None \<Rightarrow> JUndefined)"
    for name
    by (simp add: get_def)
  show ?thesis
    by (auto simp: k ch iv g first_non_empty_def)
qed

theorem lookup_two_tier_witness:
  "integration_value managed_world ''apiKey'' = Some (JStr ''managed-key'')
   \<and> truthy (JStr ''managed-key'')
   \<and> getApiKey managed_world = JStr ''managed-key''
   \<and> getApiKey (managed_world\<lparr>config := Map.empty\<rparr>) = JStr ''managed-key''
   \<and> integration_value managed_world ''channel'' = Some (JStr '''')
   \<and> \<not> truthy (JStr '''')
   \<and> getChannel managed_world = JStr ''C-local''
   \<and> getChannel (managed_world\<lparr>config := [''channel'' \<mapsto> JStr ''C2'']\<rparr>) = JStr ''C2''
   \<and> integration_value channel_managed_world ''channel'' = Some (JStr ''C-managed'')
   \<and> truthy (JStr ''C-managed'')
   \<and> getChannel (channel_managed_world\<lparr>config := Map.empty\<rparr>) = JStr ''C-managed''
   \<and> integration_value channel_managed_world ''apiKey'' = Some JNull
   \<and> \<not> truthy JNull
   \<and> getApiKey channel_managed_world = JStr ''local-key''
   \<and> integration_value incapable_world ''apiKey'' = None
   \<and> getApiKey incapable_world = JStr ''local-key''
   \<and> getApiKey (incapable_world\<lparr>config := [''apiKey'' \<mapsto> JStr ''K2'']\<rparr>) = JStr ''K2''"
proof -
  have a: "integration_value managed_world ''apiKey'' = Some (JStr ''managed-key'')"
    by (simp add: integration_value_def managed_world_def)
  have b: "integration_value managed_world ''channel'' = Some (JStr '''')"
    by (simp add: integration_value_def managed_world_def)
  have c: "integration_value incapable_world ''apiKey'' = None"
    by (simp add: integration_value_def incapable_world_def)
  have d: "integration_value incapable_world ''channel'' = None"
    by (simp add: integration_value_def incapable_world_def)
  have g1: "get managed_world ''channel'' = JStr ''C-local''"
    by (simp add: get_def managed_world_def)
  have g2: "get incapable_world ''apiKey'' = JStr ''local-key''"
    by (simp add: get_def incapable_world_def managed_world_def)
  have e: "integration_value channel_managed_world ''channel'' = Some (JStr ''C-managed'')"
    by (simp add: integration_value_def channel_managed_world_def)
  have f: "integration_value channel_managed_world ''apiKey'' = Some JNull"
    by (simp add: integration_value_def channel_managed_world_def)
  have g3: "get channel_managed_world ''apiKey'' = JStr ''local-key''"
    by (simp add: get_def channel_managed_world_def managed_world_def)
  note m4 = lookup_two_tier [of channel_managed_world "JStr ''managed-key''" Map.empty
              "JStr ''C-managed''"]
  note m1 = lookup_two_tier [of managed_world "JStr ''managed-key''" Map.empty "JStr ''managed-key''"]
  note m2 = lookup_two_tier [of managed_world "JStr ''managed-key''"
              "[''channel'' \<mapsto> JStr ''C2'']" "JStr ''managed-key''"]
  note m3 = lookup_two_tier [of incapable_world "JStr ''managed-key''"
              "[''apiKey'' \<mapsto> JStr ''K2'']" "JStr ''managed-key''"]
  show ?thesis
    using m1 m2 m3 m4 by (simp add: a b c d e f g1 g2 g3 first_non_empty_def)
qed


end
